theory Spec2Isabelle
  imports Complex_Main "HOL-Library.AList" "HOL-Library.Multiset" "HOL-Library.List_Lexorder"
    "HOL-Library.Log_Nat"
begin

section \<open>Strings, objects and the participants\<close>

text \<open>
  A JavaScript string is modelled as the list of its UTF-16 code units, so the empty
  string is \<open>[]\<close> and a string is truthy exactly when it is not \<open>[]\<close>.
  A plain object (\<open>Record<string, T>\<close>) is an association list in property order:
  \<open>map_of\<close> reads a property (\<open>None\<close> is \<open>undefined\<close>), \<open>AList.update\<close> assigns one
  (an existing key keeps its position, a new key goes last) and \<open>Object.entries\<close> is the
  list itself. Property names that look like array indices, which JavaScript enumerates
  first, are outside the model. A score is stored as an integer: every number the page
  writes is the result of \<open>parseInt\<close>, and a file is taken to carry integer scores.
  Where the page computes with scores (the leaderboard, the centre of a cluster) the
  integers are read as doubles and the arithmetic is that of doubles.
\<close>

type_synonym jsstring = "int list"
type_synonym 'v obj = "(jsstring \<times> 'v) list"
type_synonym matrix = "(int obj) obj"

definition participantsNames :: "jsstring list" where
  "participantsNames =
    [[0xC9C0, 0xC6B4], [0xB300, 0xC131], [0xC900, 0xD638], [0xD558, 0xC6B4],
     [0xBCD1, 0xC8FC], [0xD615, 0xC9C4], [0xD0DC, 0xC6B1], [0xC2B9, 0xC7AC],
     [0xD604, 0xC6B0], [0xD0DC, 0xD604], [0xC0C1, 0xD601], [0xC2B9, 0xD76C],
     [0xAC00, 0xB78C], [0xD6A8, 0xBBFC], [0xC6C5], [0xC900, 0xC774, 0xD615],
     [0xD55C, 0xC744]]"

definition jiun :: jsstring where
  "jiun = [0xC9C0, 0xC6B4]"

definition jiunInitialScores :: "int obj" where
  "jiunInitialScores =
    [([0xB300, 0xC131], 100), ([0xC900, 0xD638], 95), ([0xD558, 0xC6B4], 90),
     ([0xBCD1, 0xC8FC], 80), ([0xD615, 0xC9C4], 70), ([0xD0DC, 0xC6B1], 65),
     ([0xC2B9, 0xC7AC], 40), ([0xD604, 0xC6B0], 30), ([0xD0DC, 0xD604], 0),
     ([0xC0C1, 0xD601], 0), ([0xC2B9, 0xD76C], 0), ([0xAC00, 0xB78C], 0),
     ([0xD6A8, 0xBBFC], 0), ([0xC6C5], 0), ([0xC900, 0xC774, 0xD615], 0),
     ([0xD55C, 0xC744], 0)]"

definition defaultAxisLabel :: jsstring where
  "defaultAxisLabel = [0xC2DD, 0x20, 0xC810, 0xC218]"

subsection \<open>getInitialData\<close>

text \<open>
  The inner \<open>forEach\<close> of \<open>getInitialData\<close>: one row, filled subject by subject. The
  scorer is skipped; the row of the first participant takes the preset score where
  \<open>jiunInitialScores\<close> has one; every other entry is 0.
\<close>

definition initialRow :: "jsstring \<Rightarrow> int obj" where
  "initialRow scorer =
     fold (\<lambda>subject row.
             if scorer = subject then row
             else (case (if scorer = jiun then map_of jiunInitialScores subject else None) of
                     Some v \<Rightarrow> AList.update subject v row
                   | None \<Rightarrow> AList.update subject 0 row))
          participantsNames []"

definition getInitialData :: matrix where
  "getInitialData =
     fold (\<lambda>scorer initialMatrix. AList.update scorer (initialRow scorer) initialMatrix)
          participantsNames []"


subsection \<open>Application state\<close>

datatype js_error = SyntaxError | TypeError | InvalidFormat

datatype toast_type = Success | Error

datatype toast_message =
    ImageSaved | ImageSaveFailed | StorageFull | JsonDownloaded | FileLoaded
  | FileLoadFailed js_error

record state =
  allEvaluations :: matrix
  currentScorer :: jsstring
  axisLabel :: jsstring
  toast :: "(toast_message \<times> toast_type) option"

text \<open>
  A JSON text is represented by what \<open>JSON.parse\<close> does with it: it throws, or returns
  \<open>null\<close>, or returns a value on which property access works. Of such a value only the
  three properties the page reads or writes are kept. \<open>doc_allEvaluations = None\<close>
  stands for a missing or falsy \<open>allEvaluations\<close>; a truthy one is taken to have the shape
  its TypeScript annotation gives it, with integer scores. The text \<open>JSON.stringify\<close>
  produces for an object is represented by \<open>ParsedObject\<close> of that object.
\<close>

record doc =
  doc_allEvaluations :: "matrix option"
  doc_axisLabel :: "jsstring option"
  doc_exportedAt :: "jsstring option"

datatype parse_outcome = ParseThrows | ParsedNull | ParsedObject doc

definition showToast :: "toast_message \<Rightarrow> toast_type \<Rightarrow> state \<Rightarrow> state" where
  "showToast msg ty s = s\<lparr>toast := Some (msg, ty)\<rparr>"

subsection \<open>Start-up: the two useState initialisers\<close>

text \<open>
  \<open>saved\<close> is \<open>localStorage.getItem(STORAGE_KEY)\<close>: \<open>None\<close> when the item is absent
  or the empty string (both falsy). The body of each \<open>try\<close> is a function into a sum,
  \<open>Inl\<close> being the exception the \<open>catch\<close> swallows.
\<close>

definition readAllEvaluations :: "parse_outcome option \<Rightarrow> js_error + matrix option" where
  "readAllEvaluations saved =
     (case saved of
        None \<Rightarrow> Inr None
      | Some ParseThrows \<Rightarrow> Inl SyntaxError
      | Some ParsedNull \<Rightarrow> Inl TypeError
      | Some (ParsedObject parsed) \<Rightarrow> Inr (doc_allEvaluations parsed))"

definition initialAllEvaluations :: "parse_outcome option \<Rightarrow> matrix" where
  "initialAllEvaluations saved =
     (case readAllEvaluations saved of
        Inr (Some m) \<Rightarrow> m
      | Inr None \<Rightarrow> getInitialData
      | Inl _ \<Rightarrow> getInitialData)"

definition readAxisLabel :: "parse_outcome option \<Rightarrow> js_error + jsstring option" where
  "readAxisLabel saved =
     (case saved of
        None \<Rightarrow> Inr None
      | Some ParseThrows \<Rightarrow> Inl SyntaxError
      | Some ParsedNull \<Rightarrow> Inl TypeError
      | Some (ParsedObject parsed) \<Rightarrow>
          (case doc_axisLabel parsed of
             None \<Rightarrow> Inr None
           | Some l \<Rightarrow> if l \<noteq> [] then Inr (Some l) else Inr None))"

definition initialAxisLabel :: "parse_outcome option \<Rightarrow> jsstring" where
  "initialAxisLabel saved =
     (case readAxisLabel saved of
        Inr (Some l) \<Rightarrow> l
      | Inr None \<Rightarrow> defaultAxisLabel
      | Inl _ \<Rightarrow> defaultAxisLabel)"

definition initialState :: "parse_outcome option \<Rightarrow> state" where
  "initialState saved =
     \<lparr>allEvaluations = initialAllEvaluations saved, currentScorer = jiun,
      axisLabel = initialAxisLabel saved, toast = None\<rparr>"

subsection \<open>Persistence effect\<close>

definition snapshot :: "state \<Rightarrow> doc" where
  "snapshot s =
     \<lparr>doc_allEvaluations = Some (allEvaluations s), doc_axisLabel = Some (axisLabel s),
      doc_exportedAt = None\<rparr>"

text \<open>
  The effect that follows every change of the matrix or the label. \<open>writable\<close> says
  whether \<open>localStorage.setItem\<close> returns; when it throws, the stored item stays as it was.
\<close>

definition persistEffect ::
  "bool \<Rightarrow> state \<Rightarrow> parse_outcome option \<Rightarrow> state \<times> parse_outcome option" where
  "persistEffect writable s storage =
     (if writable then (s, Some (ParsedObject (snapshot s)))
      else (showToast StorageFull Error s, storage))"

subsection \<open>Handlers\<close>

definition rowOf :: "matrix \<Rightarrow> jsstring \<Rightarrow> int obj" where
  "rowOf m scorer = (case map_of m scorer of Some row \<Rightarrow> row | None \<Rightarrow> [])"

definition updateScore :: "jsstring \<Rightarrow> int \<Rightarrow> state \<Rightarrow> state" where
  "updateScore subjectName newScore s =
     s\<lparr>allEvaluations :=
         AList.update (currentScorer s)
           (AList.update subjectName newScore (rowOf (allEvaluations s) (currentScorer s)))
           (allEvaluations s)\<rparr>"

text \<open>
  The number box: \<open>v\<close> is \<open>parseInt(e.target.value, 10)\<close>, \<open>None\<close> for \<open>NaN\<close>
  (which is also what the empty text parses to).
\<close>

definition numberChange :: "jsstring \<Rightarrow> int option \<Rightarrow> state \<Rightarrow> state" where
  "numberChange subj v s =
     (case v of None \<Rightarrow> s | Some n \<Rightarrow> updateScore subj (min 100 (max 0 n)) s)"

definition numberBlur :: "jsstring \<Rightarrow> int option \<Rightarrow> state \<Rightarrow> state" where
  "numberBlur subj v s = (case v of None \<Rightarrow> updateScore subj 0 s | Some n \<Rightarrow> s)"

definition sliderChange :: "jsstring \<Rightarrow> int \<Rightarrow> state \<Rightarrow> state" where
  "sliderChange subj v s = updateScore subj v s"

definition setAxisLabel :: "jsstring \<Rightarrow> state \<Rightarrow> state" where
  "setAxisLabel l s = s\<lparr>axisLabel := l\<rparr>"

definition setCurrentScorer :: "jsstring \<Rightarrow> state \<Rightarrow> state" where
  "setCurrentScorer n s = s\<lparr>currentScorer := n\<rparr>"

definition exportToJson :: "jsstring \<Rightarrow> state \<Rightarrow> doc \<times> state" where
  "exportToJson now s =
     (\<lparr>doc_allEvaluations = Some (allEvaluations s), doc_axisLabel = Some (axisLabel s),
       doc_exportedAt = Some now\<rparr>,
      showToast JsonDownloaded Success s)"

definition hasData :: "matrix \<Rightarrow> bool" where
  "hasData m = list_ex (\<lambda>k. list_ex (\<lambda>v. v > 0) (map snd (rowOf m k))) (map fst m)"

text \<open>
  The body of the \<open>try\<close> in \<open>reader.onload\<close>. \<open>confirmed\<close> is the answer to the
  overwrite prompt, asked only when the current matrix holds a positive score.
\<close>

definition tryImport :: "parse_outcome \<Rightarrow> bool \<Rightarrow> state \<Rightarrow> js_error + state" where
  "tryImport text confirmed s =
     (case text of
        ParseThrows \<Rightarrow> Inl SyntaxError
      | ParsedNull \<Rightarrow> Inl TypeError
      | ParsedObject json \<Rightarrow>
          (case doc_allEvaluations json of
             None \<Rightarrow> Inl InvalidFormat
           | Some m \<Rightarrow>
               if hasData (allEvaluations s) \<and> \<not> confirmed then Inr s
               else
                 let s1 = s\<lparr>allEvaluations := m\<rparr>;
                     s2 = (case doc_axisLabel json of
                             None \<Rightarrow> s1
                           | Some l \<Rightarrow> if l \<noteq> [] then setAxisLabel l s1 else s1)
                 in Inr (showToast FileLoaded Success s2)))"

definition importFromJson :: "parse_outcome option \<Rightarrow> bool \<Rightarrow> state \<Rightarrow> state" where
  "importFromJson file confirmed s =
     (case file of
        None \<Rightarrow> s
      | Some text \<Rightarrow>
          (case tryImport text confirmed s of
             Inl e \<Rightarrow> showToast (FileLoadFailed e) Error s
           | Inr s' \<Rightarrow> s'))"

datatype png_outcome = NoElement | PngDone | PngThrows

definition saveGraphAsImage :: "png_outcome \<Rightarrow> state \<Rightarrow> state" where
  "saveGraphAsImage r s =
     (case r of
        NoElement \<Rightarrow> s
      | PngDone \<Rightarrow> showToast ImageSaved Success s
      | PngThrows \<Rightarrow> showToast ImageSaveFailed Error s)"

subsection \<open>Events of the page\<close>

datatype event =
    SliderChange jsstring int
  | NumberChange jsstring "int option"
  | NumberBlur jsstring "int option"
  | AxisLabelChange jsstring
  | SelectScorer jsstring
  | ExportClick jsstring
  | ImportFile "parse_outcome option" bool
  | SaveImageClick png_outcome
  | ToastTimeout

fun step :: "event \<Rightarrow> state \<Rightarrow> state" where
  "step (SliderChange subj v) s = sliderChange subj v s"
| "step (NumberChange subj v) s = numberChange subj v s"
| "step (NumberBlur subj v) s = numberBlur subj v s"
| "step (AxisLabelChange l) s = setAxisLabel l s"
| "step (SelectScorer n) s = setCurrentScorer n s"
| "step (ExportClick now) s = snd (exportToJson now s)"
| "step (ImportFile file confirmed) s = importFromJson file confirmed s"
| "step (SaveImageClick r) s = saveGraphAsImage r s"
| "step ToastTimeout s = s\<lparr>toast := None\<rparr>"

text \<open>
  What the rendered page can deliver: a slider and a number box exist for each subject of
  the current scorer's row only, the slider (\<open>min="0" max="100"\<close>) reports a position in
  that range, and there is one scorer button per built-in participant.
\<close>

fun deliverable :: "event \<Rightarrow> state \<Rightarrow> bool" where
  "deliverable (SliderChange subj v) s =
     (subj \<in> set (map fst (rowOf (allEvaluations s) (currentScorer s))) \<and> 0 \<le> v \<and> v \<le> 100)"
| "deliverable (NumberChange subj v) s =
     (subj \<in> set (map fst (rowOf (allEvaluations s) (currentScorer s))))"
| "deliverable (NumberBlur subj v) s =
     (subj \<in> set (map fst (rowOf (allEvaluations s) (currentScorer s))))"
| "deliverable (SelectScorer n) s = (n \<in> set participantsNames)"
| "deliverable _ s = True"


section \<open>Numbers and property reads\<close>

text \<open>
  A JavaScript Number is an IEEE 754 double. \<open>jsnum\<close> holds the finite doubles as
  rationals, the two infinities and NaN. The sign of zero is not kept: the page never
  divides by a zero and prints numbers through string conversion, which shows both zeros
  as \<open>0\<close>. \<open>toDouble\<close> takes an exact value to the nearest double, a tie going to the
  even significand, with the fixed spacing \<open>2^-1074\<close> at the bottom of the range and
  infinity from \<open>2^1024 - 2^970\<close> on. An arithmetic operation is the exact operation
  followed by \<open>toDouble\<close>.
\<close>

datatype jsnum = Fin rat | PosInf | NegInf | NaN

definition rne :: "rat \<Rightarrow> int" where
  "rne z =
     (let f = \<lfloor>z\<rfloor>; r = z - of_int f
      in if r < 1 / 2 then f else if 1 / 2 < r then f + 1 else if even f then f else f + 1)"

text \<open>The binary exponent of a positive rational: \<open>2^e \<le> a < 2^(e+1)\<close>.\<close>

definition expo :: "rat \<Rightarrow> int" where
  "expo a =
     (let c = bitlen (fst (quotient_of a)) - bitlen (snd (quotient_of a))
      in if 2 powi c \<le> a then c else c - 1)"

definition toDouble :: "rat \<Rightarrow> jsnum" where
  "toDouble x =
     (if x = 0 then Fin 0
      else
        let a = \<bar>x\<bar>;
            u = 2 powi (max (expo a - 52) (- 1074));
            y = of_int (rne (a / u)) * u
        in if 2 ^ 1024 \<le> y then (if 0 < x then PosInf else NegInf)
           else Fin (if 0 < x then y else - y))"

text \<open>The Number that an integer literal of a JSON text, or \<open>parseInt\<close>, yields.\<close>

definition fromInt :: "int \<Rightarrow> jsnum" where
  "fromInt v = toDouble (of_int v)"

fun js_neg :: "jsnum \<Rightarrow> jsnum" where
  "js_neg (Fin a) = Fin (- a)"
| "js_neg PosInf = NegInf"
| "js_neg NegInf = PosInf"
| "js_neg NaN = NaN"

fun js_add :: "jsnum \<Rightarrow> jsnum \<Rightarrow> jsnum" where
  "js_add (Fin a) (Fin b) = toDouble (a + b)"
| "js_add NaN b = NaN"
| "js_add a NaN = NaN"
| "js_add PosInf NegInf = NaN"
| "js_add NegInf PosInf = NaN"
| "js_add PosInf b = PosInf"
| "js_add a PosInf = PosInf"
| "js_add NegInf b = NegInf"
| "js_add a NegInf = NegInf"

definition js_sub :: "jsnum \<Rightarrow> jsnum \<Rightarrow> jsnum" where
  "js_sub a b = js_add a (js_neg b)"

fun js_div :: "jsnum \<Rightarrow> jsnum \<Rightarrow> jsnum" where
  "js_div (Fin a) (Fin b) =
     (if b = 0 then (if a = 0 then NaN else if 0 < a then PosInf else NegInf)
      else toDouble (a / b))"
| "js_div NaN b = NaN"
| "js_div a NaN = NaN"
| "js_div (Fin a) b = Fin 0"
| "js_div PosInf (Fin b) = (if b < 0 then NegInf else PosInf)"
| "js_div NegInf (Fin b) = (if b < 0 then PosInf else NegInf)"
| "js_div a b = NaN"

fun js_abs :: "jsnum \<Rightarrow> jsnum" where
  "js_abs (Fin a) = Fin \<bar>a\<bar>"
| "js_abs NaN = NaN"
| "js_abs a = PosInf"

text \<open>\<open>Math.round\<close> on a finite value: the nearest integer, a tie going up.\<close>

definition js_round :: "rat \<Rightarrow> int" where
  "js_round x = \<lfloor>x + 1 / 2\<rfloor>"

fun mathRound :: "jsnum \<Rightarrow> jsnum" where
  "mathRound (Fin a) = Fin (of_int (js_round a))"
| "mathRound a = a"

text \<open>\<open>a < b\<close>, \<open>a > 0\<close> and the truth value of a number; every comparison with NaN is false.\<close>

fun js_lt :: "jsnum \<Rightarrow> jsnum \<Rightarrow> bool" where
  "js_lt (Fin a) (Fin b) = (a < b)"
| "js_lt NaN b = False"
| "js_lt a NaN = False"
| "js_lt a NegInf = False"
| "js_lt PosInf b = False"
| "js_lt a b = True"

definition js_positive :: "jsnum \<Rightarrow> bool" where
  "js_positive a = js_lt (Fin 0) a"

fun falsy :: "jsnum \<Rightarrow> bool" where
  "falsy (Fin a) = (a = 0)"
| "falsy NaN = True"
| "falsy a = False"

fun js_max :: "jsnum \<Rightarrow> jsnum \<Rightarrow> jsnum" where
  "js_max NaN b = NaN"
| "js_max a NaN = NaN"
| "js_max a b = (if js_lt a b then b else a)"

fun js_min :: "jsnum \<Rightarrow> jsnum \<Rightarrow> jsnum" where
  "js_min NaN b = NaN"
| "js_min a NaN = NaN"
| "js_min a b = (if js_lt b a then b else a)"

text \<open>
  What a sort comparator's result counts as: negative, zero or positive; NaN counts as
  zero.
\<close>

fun signOf :: "jsnum \<Rightarrow> int" where
  "signOf (Fin a) = (if a < 0 then - 1 else if a = 0 then 0 else 1)"
| "signOf PosInf = 1"
| "signOf NegInf = - 1"
| "signOf NaN = 0"

text \<open>
  \<open>Array.prototype.sort\<close> with a comparator is stable; for a consistent comparator its
  result is that of insertion sort. With an inconsistent comparator (one that meets NaN)
  the order is the engine's own, and insertion sort stands for it.
\<close>

fun insertBy :: "('a \<Rightarrow> 'a \<Rightarrow> int) \<Rightarrow> 'a \<Rightarrow> 'a list \<Rightarrow> 'a list" where
  "insertBy cmp x [] = [x]"
| "insertBy cmp x (y # ys) = (if cmp x y \<le> 0 then x # y # ys else y # insertBy cmp x ys)"

definition sortBy :: "('a \<Rightarrow> 'a \<Rightarrow> int) \<Rightarrow> 'a list \<Rightarrow> 'a list" where
  "sortBy cmp xs = foldr (insertBy cmp) xs []"

subsection \<open>Objects used as dictionaries\<close>

text \<open>
  \<open>totals\<close> and \<open>counts\<close> start as \<open>{}\<close>, so a read of a name they do not hold
  themselves goes on to \<open>Object.prototype\<close>. A value in them, or read from them, is a
  number, or a string that is not empty and does not read as a number (the text of a
  function or object with digits after it), or a function or object found on
  \<open>Object.prototype\<close>.
\<close>

datatype jsval = Number jsnum | Text | ProtoValue

text \<open>The property names of \<open>Object.prototype\<close>, the last but one being its accessor.\<close>

definition objectPrototypeNames :: "jsstring list" where
  "objectPrototypeNames =
    [
     [0x63, 0x6F, 0x6E, 0x73, 0x74, 0x72, 0x75, 0x63, 0x74, 0x6F, 0x72],
     [0x5F, 0x5F, 0x64, 0x65, 0x66, 0x69, 0x6E, 0x65, 0x47, 0x65, 0x74, 0x74, 0x65, 0x72, 0x5F, 0x5F],
     [0x5F, 0x5F, 0x64, 0x65, 0x66, 0x69, 0x6E, 0x65, 0x53, 0x65, 0x74, 0x74, 0x65, 0x72, 0x5F, 0x5F],
     [0x68, 0x61, 0x73, 0x4F, 0x77, 0x6E, 0x50, 0x72, 0x6F, 0x70, 0x65, 0x72, 0x74, 0x79],
     [0x5F, 0x5F, 0x6C, 0x6F, 0x6F, 0x6B, 0x75, 0x70, 0x47, 0x65, 0x74, 0x74, 0x65, 0x72, 0x5F, 0x5F],
     [0x5F, 0x5F, 0x6C, 0x6F, 0x6F, 0x6B, 0x75, 0x70, 0x53, 0x65, 0x74, 0x74, 0x65, 0x72, 0x5F, 0x5F],
     [0x69, 0x73, 0x50, 0x72, 0x6F, 0x74, 0x6F, 0x74, 0x79, 0x70, 0x65, 0x4F, 0x66],
     [0x70, 0x72, 0x6F, 0x70, 0x65, 0x72, 0x74, 0x79, 0x49, 0x73, 0x45, 0x6E, 0x75, 0x6D, 0x65, 0x72, 0x61, 0x62, 0x6C, 0x65],
     [0x74, 0x6F, 0x53, 0x74, 0x72, 0x69, 0x6E, 0x67],
     [0x76, 0x61, 0x6C, 0x75, 0x65, 0x4F, 0x66],
     [0x5F, 0x5F, 0x70, 0x72, 0x6F, 0x74, 0x6F, 0x5F, 0x5F],
     [0x74, 0x6F, 0x4C, 0x6F, 0x63, 0x61, 0x6C, 0x65, 0x53, 0x74, 0x72, 0x69, 0x6E, 0x67]]"

definition protoKey :: jsstring where
  "protoKey = [0x5F, 0x5F, 0x70, 0x72, 0x6F, 0x74, 0x6F, 0x5F, 0x5F]"

definition getProp :: "jsval obj \<Rightarrow> jsstring \<Rightarrow> jsval option" where
  "getProp obj k =
     (case map_of obj k of
        Some v \<Rightarrow> Some v
      | None \<Rightarrow> if k \<in> set objectPrototypeNames then Some ProtoValue else None)"

text \<open>
  \<open>obj[k] = v\<close> for a number or string \<open>v\<close>: where \<open>k\<close> is \<open>__proto__\<close> and the
  object has no property of that name itself, the inherited setter is called, which
  ignores a value that is not an object.
\<close>

definition setProp :: "jsval obj \<Rightarrow> jsstring \<Rightarrow> jsval \<Rightarrow> jsval obj" where
  "setProp obj k v =
     (if k = protoKey \<and> map_of obj k = None then obj else AList.update k v obj)"

text \<open>\<open>x || d\<close>: \<open>undefined\<close>, 0 and NaN are falsy, every other value here is truthy.\<close>

definition orElse :: "jsval option \<Rightarrow> jsval \<Rightarrow> jsval" where
  "orElse x d =
     (case x of
        None \<Rightarrow> d
      | Some (Number n) \<Rightarrow> if falsy n then d else Number n
      | Some v \<Rightarrow> v)"

text \<open>\<open>x + n\<close> for a number \<open>n\<close>: addition of numbers, concatenation otherwise.\<close>

definition js_plus :: "jsval \<Rightarrow> jsnum \<Rightarrow> jsval" where
  "js_plus x n = (case x of Number a \<Rightarrow> Number (js_add a n) | Text \<Rightarrow> Text | ProtoValue \<Rightarrow> Text)"

text \<open>The operand of a division, as a number.\<close>

definition toNumber :: "jsval \<Rightarrow> jsnum" where
  "toNumber x = (case x of Number a \<Rightarrow> a | Text \<Rightarrow> NaN | ProtoValue \<Rightarrow> NaN)"

section \<open>The leaderboard\<close>

definition sumGiven :: "int obj \<Rightarrow> jsnum" where
  "sumGiven evals = foldl (\<lambda>a b. js_add a b) (Fin 0) (map (\<lambda>e. fromInt (snd e)) evals)"

definition hasEvaluated :: "matrix \<Rightarrow> bool obj" where
  "hasEvaluated m =
     fold (\<lambda>n result. AList.update n (js_positive (sumGiven (rowOf m n))) result)
          participantsNames []"

text \<open>
  The two accumulators of \<open>averageScores\<close>, as a pair \<open>(totals, counts)\<close>. The total is
  added for every entry; the count only under the \<open>hasEvaluated\<close> flag of the row.
\<close>

definition tallyEntry ::
  "bool \<Rightarrow> jsstring \<times> int \<Rightarrow> jsval obj \<times> jsval obj \<Rightarrow> jsval obj \<times> jsval obj" where
  "tallyEntry evaluated e acc =
     (let totals =
            setProp (fst acc) (fst e)
              (js_plus (orElse (getProp (fst acc) (fst e)) (Number (Fin 0))) (fromInt (snd e)))
      in if evaluated
         then (totals,
               setProp (snd acc) (fst e)
                 (js_plus (orElse (getProp (snd acc) (fst e)) (Number (Fin 0))) (Fin 1)))
         else (totals, snd acc))"

definition tallyEvaluator :: "int obj \<Rightarrow> jsval obj \<times> jsval obj \<Rightarrow> jsval obj \<times> jsval obj" where
  "tallyEvaluator evals acc = fold (tallyEntry (js_positive (sumGiven evals))) evals acc"

definition tallyAll :: "matrix \<Rightarrow> jsval obj \<times> jsval obj" where
  "tallyAll m = fold (\<lambda>entry acc. tallyEvaluator (snd entry) acc) m ([], [])"

definition denominator :: "jsval obj \<Rightarrow> jsstring \<Rightarrow> jsval" where
  "denominator counts subj = orElse (getProp counts subj) (Number (Fin 1))"

definition byScoreDescending :: "jsstring \<times> jsnum \<Rightarrow> jsstring \<times> jsnum \<Rightarrow> int" where
  "byScoreDescending a b = signOf (js_sub (snd b) (snd a))"

definition averageScores :: "matrix \<Rightarrow> (jsstring \<times> jsnum) list" where
  "averageScores m =
     (let totals = fst (tallyAll m); counts = snd (tallyAll m)
      in sortBy byScoreDescending
           (map (\<lambda>e. (fst e,
                       mathRound (js_div (toNumber (snd e))
                                         (toNumber (denominator counts (fst e))))))
                totals))"

text \<open>
  The words of the leaderboard's description, in exact arithmetic: the scores a subject
  received, the evaluators whose scores sum to more than 0, and the rounded mean. Then the
  conditions under which the page's arithmetic is exact and its dictionaries behave as
  maps: the absolute values of all scores sum to less than \<open>2^52\<close>, there are fewer than
  \<open>2^53\<close> entries, and the subject's name is not a property name of \<open>Object.prototype\<close>.
\<close>

definition scoresGiven :: "matrix \<Rightarrow> jsstring \<Rightarrow> int list" where
  "scoresGiven m subj =
     concat (map (\<lambda>entry. map snd (filter (\<lambda>e. fst e = subj) (snd entry))) m)"

definition nonEmptySubmissions :: "matrix \<Rightarrow> matrix" where
  "nonEmptySubmissions m = filter (\<lambda>entry. 0 < sum_list (map snd (snd entry))) m"

definition roundedMean :: "int list \<Rightarrow> int" where
  "roundedMean vs = js_round (of_int (sum_list vs) / of_nat (length vs))"


definition validScores :: "matrix \<Rightarrow> bool" where
  "validScores m =
     list_all (\<lambda>entry. list_all (\<lambda>e. 0 \<le> snd e \<and> snd e \<le> 100) (snd entry)) m"

definition rowMagnitude :: "int obj \<Rightarrow> int" where
  "rowMagnitude row = sum_list (map (\<lambda>e. \<bar>snd e\<bar>) row)"

definition magnitude :: "matrix \<Rightarrow> int" where
  "magnitude m = sum_list (map (\<lambda>entry. rowMagnitude (snd entry)) m)"

definition entryCount :: "matrix \<Rightarrow> int" where
  "entryCount m = sum_list (map (\<lambda>entry. int (length (snd entry))) m)"



section \<open>The label layout\<close>

record person =
  name :: jsstring
  score :: int
  color :: rat

definition currentScores :: "state \<Rightarrow> person list" where
  "currentScores s =
     map (\<lambda>ie. \<lparr>name = fst (snd ie), score = snd (snd ie), color = of_nat (fst ie) * 360 / 16\<rparr>)
         (enumerate 0 (rowOf (allEvaluations s) (currentScorer s)))"

datatype item = Single person jsnum "int option" | Cluster jsnum "person list"

fun centerX :: "item \<Rightarrow> jsnum" where
  "centerX (Single p x y) = x"
| "centerX (Cluster x ms) = x"

fun membersOf :: "item \<Rightarrow> person list" where
  "membersOf (Single p x y) = [p]"
| "membersOf (Cluster x ms) = ms"

text \<open>\<open>localeCompare\<close> is the browser's collation and is a parameter \<open>lc\<close> here.\<close>

definition byScoreThenName :: "(jsstring \<Rightarrow> jsstring \<Rightarrow> int) \<Rightarrow> person \<Rightarrow> person \<Rightarrow> int" where
  "byScoreThenName lc a b =
     (if score a - score b \<noteq> 0 then score a - score b else lc (name a) (name b))"

definition SCORE_BAND :: int where
  "SCORE_BAND = 12"

definition STAGGER_THRESHOLD :: jsnum where
  "STAGGER_THRESHOLD = Fin 18"

definition VERTICAL_OFFSET :: int where
  "VERTICAL_OFFSET = 26"

text \<open>The grouping loop, on the pair \<open>(groups, currentGroup)\<close>.\<close>

definition groupStep ::
  "person \<Rightarrow> person list list \<times> person list \<Rightarrow> person list list \<times> person list" where
  "groupStep p acc =
     (let groups = fst acc; currentGroup = snd acc;
          inRange = (currentGroup \<noteq> [] \<and> \<bar>score p - score (last currentGroup)\<bar> \<le> SCORE_BAND)
      in if inRange then (groups, currentGroup @ [p])
         else ((if currentGroup \<noteq> [] then groups @ [currentGroup] else groups), [p]))"

definition closeGroups :: "person list list \<times> person list \<Rightarrow> person list list" where
  "closeGroups acc = (if snd acc \<noteq> [] then fst acc @ [snd acc] else fst acc)"

definition groupsOf :: "person list \<Rightarrow> person list list" where
  "groupsOf sortedCs = closeGroups (fold groupStep sortedCs ([], []))"

definition clampX :: "jsnum \<Rightarrow> jsnum" where
  "clampX c = js_min (Fin 97) (js_max (Fin 3) c)"

definition centerScore :: "person list \<Rightarrow> jsnum" where
  "centerScore members =
     js_div (foldl (\<lambda>t p. js_add t (fromInt (score p))) (Fin 0) members)
            (fromInt (int (length members)))"

definition mkItem :: "person list \<Rightarrow> item" where
  "mkItem members =
     (case members of
        [p] \<Rightarrow> Single p (clampX (centerScore members)) None
      | _ \<Rightarrow> Cluster (clampX (centerScore members)) members)"

text \<open>
  The stagger of single labels. \<open>singleIndices\<close> holds \<open>(idx, x, name)\<close> for every single
  item; \<open>yOffsets\<close> is the \<open>Map\<close> from item index to offset.
\<close>

definition singleIndices :: "item list \<Rightarrow> (nat \<times> jsnum \<times> jsstring) list" where
  "singleIndices items =
     List.map_filter
       (\<lambda>ii. case snd ii of Single p x y \<Rightarrow> Some (fst ii, x, name p) | Cluster x ms \<Rightarrow> None)
       (enumerate 0 items)"

fun findIndex :: "('a \<Rightarrow> bool) \<Rightarrow> 'a list \<Rightarrow> nat option" where
  "findIndex P [] = None"
| "findIndex P (x # xs) =
     (if P x then Some 0 else (case findIndex P xs of None \<Rightarrow> None | Some i \<Rightarrow> Some (Suc i)))"

definition staggerStep ::
  "(nat \<times> jsnum \<times> jsstring) list \<Rightarrow> nat \<times> jsnum \<times> jsstring \<Rightarrow>
   (nat \<rightharpoonup> int) \<Rightarrow> (nat \<rightharpoonup> int)" where
  "staggerStep singles s yOffsets =
     (let idx = fst s; x = fst (snd s); nm = snd (snd s);
          nearby = sortBy (\<lambda>a b. signOf (js_sub (fst (snd a)) (fst (snd b))))
                     (filter (\<lambda>t. js_lt (js_abs (js_sub (fst (snd t)) x)) STAGGER_THRESHOLD)
                        singles)
      in if length nearby < 2 then yOffsets
         else (case findIndex (\<lambda>n. snd (snd n) = nm) nearby of
                 None \<Rightarrow> yOffsets
               | Some myPos \<Rightarrow>
                   yOffsets(idx \<mapsto> (if myPos mod 2 = 0 then VERTICAL_OFFSET else - VERTICAL_OFFSET))))"

definition withOffset :: "(nat \<rightharpoonup> int) \<Rightarrow> nat \<times> item \<Rightarrow> item" where
  "withOffset yOffsets ii =
     (case snd ii of
        Single p x y \<Rightarrow>
          (case yOffsets (fst ii) of None \<Rightarrow> Single p x y | Some off \<Rightarrow> Single p x (Some off))
      | Cluster x ms \<Rightarrow> Cluster x ms)"

definition staggered :: "item list \<Rightarrow> item list" where
  "staggered items =
     (let singles = singleIndices items;
          yOffsets = fold (staggerStep singles) singles Map.empty
      in map (withOffset yOffsets) (enumerate 0 items))"

definition graphDisplayItems :: "(jsstring \<Rightarrow> jsstring \<Rightarrow> int) \<Rightarrow> person list \<Rightarrow> item list" where
  "graphDisplayItems lc cs =
     (let sortedCs = sortBy (byScoreThenName lc) cs;
          groups = groupsOf sortedCs;
          items = map mkItem groups
      in sortBy (\<lambda>a b. signOf (js_sub (centerX a) (centerX b))) (staggered items))"


section \<open>Auxiliary definitions and concrete inputs\<close>

definition initialScore :: "jsstring \<Rightarrow> jsstring \<Rightarrow> int" where
  "initialScore scorer subject =
     (case (if scorer = jiun then map_of jiunInitialScores subject else None) of
        Some v \<Rightarrow> v | None \<Rightarrow> 0)"

fun isImport :: "event \<Rightarrow> bool" where
  "isImport (ImportFile file confirmed) = True"
| "isImport _ = False"

definition daeseong :: jsstring where
  "daeseong = [0xB300, 0xC131]"

definition junho :: jsstring where
  "junho = [0xC900, 0xD638]"

text \<open>A small state with three of the participants, and files as a user could pick them.\<close>

definition smallMatrix :: matrix where
  "smallMatrix =
     [(jiun, [(daeseong, 100), (junho, 95)]),
      (daeseong, [(jiun, 0), (junho, 0)]),
      (junho, [(jiun, 70), (daeseong, 81)])]"

definition smallState :: state where
  "smallState =
     \<lparr>allEvaluations = smallMatrix, currentScorer = jiun, axisLabel = defaultAxisLabel,
      toast = None\<rparr>"

definition outOfRangeFile :: doc where
  "outOfRangeFile =
     \<lparr>doc_allEvaluations = Some [(jiun, [(daeseong, 150)])], doc_axisLabel = None,
      doc_exportedAt = None\<rparr>"


definition noLabelFile :: doc where
  "noLabelFile =
     \<lparr>doc_allEvaluations = None, doc_axisLabel = Some defaultAxisLabel,
      doc_exportedAt = None\<rparr>"

text \<open>A comparison of names by code units, a consistent comparator to run the layout with.\<close>

definition codeUnitCompare :: "jsstring \<Rightarrow> jsstring \<Rightarrow> int" where
  "codeUnitCompare a b = (if a < b then - 1 else if a = b then 0 else 1)"

definition layoutScores :: "person list" where
  "layoutScores =
     [\<lparr>name = daeseong, score = 100, color = 0\<rparr>,
      \<lparr>name = junho, score = 95, color = 45 / 2\<rparr>,
      \<lparr>name = [0xD558, 0xC6B4], score = 30, color = 45\<rparr>,
      \<lparr>name = [0xBCD1, 0xC8FC], score = 30, color = 135 / 2\<rparr>,
      \<lparr>name = [0xD615, 0xC9C4], score = 60, color = 90\<rparr>]"

definition layoutItems :: "item list" where
  "layoutItems =
     [Cluster (Fin 30)
        [\<lparr>name = [0xBCD1, 0xC8FC], score = 30, color = 135 / 2\<rparr>,
         \<lparr>name = [0xD558, 0xC6B4], score = 30, color = 45\<rparr>],
      Single \<lparr>name = [0xD615, 0xC9C4], score = 60, color = 90\<rparr> (Fin 60) None,
      Cluster (Fin 97)
        [\<lparr>name = junho, score = 95, color = 45 / 2\<rparr>,
         \<lparr>name = daeseong, score = 100, color = 0\<rparr>]]"








text \<open>Three scores, each 13 from the next, for the first participant.\<close>

definition haun :: jsstring where
  "haun = [0xD558, 0xC6B4]"

definition staggerState :: state where
  "staggerState =
     \<lparr>allEvaluations = [(jiun, [(daeseong, 20), (junho, 33), (haun, 46)])],
      currentScorer = jiun, axisLabel = defaultAxisLabel, toast = None\<rparr>"

text \<open>
  The vocabulary of the layout's description: two neighbours are within the band when
  their scores differ by at most \<open>SCORE_BAND\<close>; a collation is consistent when it is
  total and transitive; the order the first sort aims at; an item without its stagger
  offset; and the invariant of the grouping loop.
\<close>

definition withinBand :: "person \<Rightarrow> person \<Rightarrow> bool" where
  "withinBand a b = (\<bar>score b - score a\<bar> \<le> SCORE_BAND)"

definition consistentCollation :: "(jsstring \<Rightarrow> jsstring \<Rightarrow> int) \<Rightarrow> bool" where
  "consistentCollation lc =
     ((\<forall>a b. lc a b \<le> 0 \<or> lc b a \<le> 0) \<and>
      (\<forall>a b c. lc a b \<le> 0 \<and> lc b c \<le> 0 \<longrightarrow> lc a c \<le> 0))"

definition scoreNameOrder :: "(jsstring \<Rightarrow> jsstring \<Rightarrow> int) \<Rightarrow> person \<Rightarrow> person \<Rightarrow> bool" where
  "scoreNameOrder lc a b =
     (score a < score b \<or> (score a = score b \<and> lc (name a) (name b) \<le> 0))"

fun stripOffset :: "item \<Rightarrow> item" where
  "stripOffset (Single p x y) = Single p x None"
| "stripOffset (Cluster x ms) = Cluster x ms"

definition groupsInvariant :: "person list list \<times> person list \<Rightarrow> bool" where
  "groupsInvariant acc =
     ((snd acc = [] \<longrightarrow> fst acc = []) \<and> [] \<notin> set (fst acc) \<and>
      (\<forall>g \<in> set (closeGroups acc). successively withinBand g) \<and>
      successively (\<lambda>g h. \<not> withinBand (last g) (hd h)) (closeGroups acc))"

section \<open>The built-in matrix\<close>

lemma update_fresh_key: "k \<notin> fst ` set al \<Longrightarrow> AList.update k v al = al @ [(k, v)]"
  by (induction al) auto

lemma fold_update_fresh:
  "distinct xs \<Longrightarrow> set xs \<inter> fst ` set acc = {} \<Longrightarrow>
   fold (\<lambda>k row. if P k then row else AList.update k (g k) row) xs acc
     = acc @ map (\<lambda>k. (k, g k)) (filter (\<lambda>k. \<not> P k) xs)"
proof (induction xs arbitrary: acc)
  case Nil
  then show ?case by simp
next
  case (Cons x xs)
  show ?case
  proof (cases "P x")
    case True
    with Cons show ?thesis by simp
  next
    case False
    have "x \<notin> fst ` set acc" using Cons.prems by auto
    then have u: "AList.update x (g x) acc = acc @ [(x, g x)]" by (rule update_fresh_key)
    have "set xs \<inter> fst ` set (acc @ [(x, g x)]) = {}" using Cons.prems by auto
    with Cons.IH[of "acc @ [(x, g x)]"] Cons.prems False u show ?thesis by simp
  qed
qed

lemma map_of_tabulate: "k \<in> set xs \<Longrightarrow> map_of (map (\<lambda>k. (k, f k)) xs) k = Some (f k)"
  by (induction xs) auto

lemma distinct_participantsNames: "distinct participantsNames"
  by (simp add: participantsNames_def)

lemma length_participantsNames: "length participantsNames = 17"
  by (simp add: participantsNames_def)

lemma initialRow_eq:
  "initialRow scorer =
     map (\<lambda>subject. (subject, initialScore scorer subject))
         (filter (\<lambda>subject. scorer \<noteq> subject) participantsNames)"
proof -
  have f: "(\<lambda>subject row.
             if scorer = subject then row
             else (case (if scorer = jiun then map_of jiunInitialScores subject else None) of
                     Some v \<Rightarrow> AList.update subject v row
                   | None \<Rightarrow> AList.update subject 0 row))
         = (\<lambda>subject row. if scorer = subject then row
                           else AList.update subject (initialScore scorer subject) row)"
    by (intro ext) (simp add: initialScore_def split: option.splits)
  show ?thesis
    unfolding initialRow_def f
    using fold_update_fresh[OF distinct_participantsNames, of "[]" "\<lambda>k. scorer = k"
        "initialScore scorer"]
    by simp
qed

lemma getInitialData_eq:
  "getInitialData = map (\<lambda>scorer. (scorer, initialRow scorer)) participantsNames"
  unfolding getInitialData_def
  using fold_update_fresh[OF distinct_participantsNames, of "[]" "\<lambda>k. False" initialRow]
  by simp

lemma rowOf_getInitialData:
  "scorer \<in> set participantsNames \<Longrightarrow> rowOf getInitialData scorer = initialRow scorer"
  by (simp add: rowOf_def getInitialData_eq map_of_tabulate)

lemma initialRow_jiun: "initialRow jiun = jiunInitialScores"
  by (simp add: initialRow_eq initialScore_def jiun_def participantsNames_def
      jiunInitialScores_def)

text \<open>
  C9: the built-in matrix has one row per participant, seventeen in all; a row's subjects
  are all the participants but its own scorer, in order; every score outside the first
  participant's row is 0, and that row is the preset table.
\<close>

theorem getInitialData_rows:
  "map fst getInitialData = participantsNames \<and> length participantsNames = 17 \<and>
   distinct participantsNames \<and>
   (\<forall>scorer \<in> set participantsNames.
      map fst (rowOf getInitialData scorer)
        = filter (\<lambda>subject. scorer \<noteq> subject) participantsNames \<and>
      set (map fst (rowOf getInitialData scorer)) = set participantsNames - {scorer} \<and>
      (scorer \<noteq> jiun \<longrightarrow> (\<forall>e \<in> set (rowOf getInitialData scorer). snd e = 0))) \<and>
   rowOf getInitialData jiun = jiunInitialScores"
proof -
  have keys: "map fst getInitialData = participantsNames"
    by (simp add: getInitialData_eq comp_def)
  have jiun_in: "jiun \<in> set participantsNames"
    by (simp add: jiun_def participantsNames_def)
  have rows: "map fst (rowOf getInitialData scorer)
        = filter (\<lambda>subject. scorer \<noteq> subject) participantsNames \<and>
      set (map fst (rowOf getInitialData scorer)) = set participantsNames - {scorer} \<and>
      (scorer \<noteq> jiun \<longrightarrow> (\<forall>e \<in> set (rowOf getInitialData scorer). snd e = 0))"
    if "scorer \<in> set participantsNames" for scorer
  proof -
    have r: "rowOf getInitialData scorer = initialRow scorer"
      using that by (rule rowOf_getInitialData)
    have k: "map fst (initialRow scorer)
        = filter (\<lambda>subject. scorer \<noteq> subject) participantsNames"
      by (simp add: initialRow_eq comp_def)
    have z: "scorer \<noteq> jiun \<Longrightarrow> \<forall>e \<in> set (initialRow scorer). snd e = 0"
      by (auto simp: initialRow_eq initialScore_def)
    from r k z show ?thesis by auto
  qed
  have j: "rowOf getInitialData jiun = jiunInitialScores"
    using rowOf_getInitialData[OF jiun_in] initialRow_jiun by simp
  from keys length_participantsNames distinct_participantsNames rows j
  show ?thesis by blast
qed

theorem getInitialData_rows_witness:
  "daeseong \<in> set participantsNames \<and> daeseong \<noteq> jiun \<and>
   jiun \<notin> set (map fst (rowOf getInitialData jiun)) \<and>
   daeseong \<in> set (map fst (rowOf getInitialData jiun)) \<and>
   map_of (rowOf getInitialData jiun) daeseong = Some 100 \<and>
   list_all (\<lambda>e. snd e = 0) (rowOf getInitialData daeseong)"
proof -
  have a: "daeseong \<in> set participantsNames" "jiun \<in> set participantsNames"
    by (simp_all add: daeseong_def jiun_def participantsNames_def)
  have b: "daeseong \<noteq> jiun" by (simp add: daeseong_def jiun_def)
  have j: "rowOf getInitialData jiun = jiunInitialScores"
    using getInitialData_rows by blast
  have "\<forall>e \<in> set (rowOf getInitialData daeseong). snd e = 0"
    using getInitialData_rows a(1) b by blast
  then have z: "list_all (\<lambda>e. snd e = 0) (rowOf getInitialData daeseong)"
    by (simp add: list_all_iff)
  have k: "jiun \<notin> set (map fst jiunInitialScores)"
    "daeseong \<in> set (map fst jiunInitialScores)"
    "map_of jiunInitialScores daeseong = Some 100"
    by (simp_all add: jiunInitialScores_def jiun_def daeseong_def)
  from a(1) b z k show ?thesis by (simp add: j)
qed
section \<open>Writing a score\<close>

lemma map_of_rowOf_update:
  "map_of (rowOf (AList.update k r m) k) = map_of r"
  by (simp add: rowOf_def update_conv')

text \<open>
  C8: \<open>updateScore\<close> writes one entry. Every other evaluator's row, every other
  subject's score in the current evaluator's row, the axis label, the selected scorer
  and the toast stay as they were.
\<close>

theorem updateScore_frame:
  "(\<forall>scorer. scorer \<noteq> currentScorer s \<longrightarrow>
      map_of (allEvaluations (updateScore subj v s)) scorer = map_of (allEvaluations s) scorer) \<and>
   (\<forall>other. other \<noteq> subj \<longrightarrow>
      map_of (rowOf (allEvaluations (updateScore subj v s)) (currentScorer s)) other
        = map_of (rowOf (allEvaluations s) (currentScorer s)) other) \<and>
   map_of (rowOf (allEvaluations (updateScore subj v s)) (currentScorer s)) subj = Some v \<and>
   axisLabel (updateScore subj v s) = axisLabel s \<and>
   currentScorer (updateScore subj v s) = currentScorer s \<and>
   toast (updateScore subj v s) = toast s"
  by (simp add: updateScore_def update_conv' map_of_rowOf_update)

theorem updateScore_frame_witness:
  "daeseong \<noteq> currentScorer smallState \<and>
   map_of (allEvaluations (updateScore junho 40 smallState)) daeseong
     = Some [(jiun, 0), (junho, 0)] \<and>
   daeseong \<noteq> junho \<and>
   map_of (rowOf (allEvaluations (updateScore junho 40 smallState)) jiun) daeseong = Some 100 \<and>
   map_of (rowOf (allEvaluations (updateScore junho 40 smallState)) jiun) junho = Some 40 \<and>
   axisLabel (updateScore junho 40 smallState) = defaultAxisLabel"
  using updateScore_frame[of smallState junho 40]
  by (simp add: smallState_def smallMatrix_def rowOf_def jiun_def daeseong_def junho_def)

section \<open>Start-up\<close>

text \<open>
  C7: when the stored item is absent, does not parse, or parses to \<open>null\<close>, the page
  starts from the built-in matrix and the default label; a stored object without
  \<open>allEvaluations\<close> gives the built-in matrix and one without \<open>axisLabel\<close> the default
  label. No toast is raised: the exception is dropped.
\<close>

theorem startup_falls_back_to_defaults:
  "(saved = None \<or> saved = Some ParseThrows \<or> saved = Some ParsedNull \<longrightarrow>
      initialState saved =
        \<lparr>allEvaluations = getInitialData, currentScorer = jiun,
         axisLabel = defaultAxisLabel, toast = None\<rparr>) \<and>
   (saved = Some (ParsedObject d) \<and> doc_allEvaluations d = None \<longrightarrow>
      allEvaluations (initialState saved) = getInitialData) \<and>
   (saved = Some (ParsedObject d) \<and> (doc_axisLabel d = None \<or> doc_axisLabel d = Some []) \<longrightarrow>
      axisLabel (initialState saved) = defaultAxisLabel) \<and>
   toast (initialState saved) = None \<and> currentScorer (initialState saved) = jiun"
  by (auto simp: initialState_def initialAllEvaluations_def initialAxisLabel_def
      readAllEvaluations_def readAxisLabel_def)

theorem startup_falls_back_to_defaults_witness:
  "initialState None =
     \<lparr>allEvaluations = getInitialData, currentScorer = jiun,
      axisLabel = defaultAxisLabel, toast = None\<rparr> \<and>
   initialState (Some ParseThrows) = initialState None \<and>
   initialState (Some ParsedNull) = initialState None \<and>
   allEvaluations (initialState (Some (ParsedObject noLabelFile))) = getInitialData \<and>
   axisLabel (initialState (Some (ParsedObject outOfRangeFile))) = defaultAxisLabel"
  using startup_falls_back_to_defaults[of None]
    startup_falls_back_to_defaults[of "Some ParseThrows"]
    startup_falls_back_to_defaults[of "Some ParsedNull"]
    startup_falls_back_to_defaults[of "Some (ParsedObject noLabelFile)" noLabelFile]
    startup_falls_back_to_defaults[of "Some (ParsedObject outOfRangeFile)" outOfRangeFile]
  by (simp add: noLabelFile_def outOfRangeFile_def)

section \<open>Invariants of the evaluation matrix\<close>

lemma list_all_update:
  "P (k, v) \<Longrightarrow> list_all P al \<Longrightarrow> list_all P (AList.update k v al)"
  by (induction al) auto

lemma list_all_rowOf:
  "list_all (\<lambda>entry. list_all Q (snd entry)) m \<Longrightarrow> list_all Q (rowOf m k)"
proof (cases "map_of m k")
  case None
  then show ?thesis by (simp add: rowOf_def)
next
  case (Some row)
  assume a: "list_all (\<lambda>entry. list_all Q (snd entry)) m"
  from Some have "(k, row) \<in> set m" by (rule map_of_SomeD)
  with a have "list_all Q row" by (auto simp: list_all_iff)
  with Some show ?thesis by (simp add: rowOf_def)
qed

lemma validScores_iff:
  "validScores m \<longleftrightarrow> (\<forall>entry \<in> set m. \<forall>e \<in> set (snd entry). 0 \<le> snd e \<and> snd e \<le> 100)"
  by (simp add: validScores_def list_all_iff)

lemma validScores_updateScore:
  assumes "validScores (allEvaluations s)" and "0 \<le> v" and "v \<le> 100"
  shows "validScores (allEvaluations (updateScore subj v s))"
proof -
  let ?Q = "\<lambda>e :: jsstring \<times> int. 0 \<le> snd e \<and> snd e \<le> 100"
  have "list_all ?Q (rowOf (allEvaluations s) (currentScorer s))"
    using assms(1) unfolding validScores_def by (rule list_all_rowOf)
  then have "list_all ?Q (AList.update subj v (rowOf (allEvaluations s) (currentScorer s)))"
    using assms(2,3) by (intro list_all_update) simp_all
  then show ?thesis
    using assms(1) unfolding validScores_def updateScore_def
    by (simp add: list_all_update)
qed

lemma validScores_getInitialData: "validScores getInitialData"
proof -
  have "0 \<le> initialScore a b \<and> initialScore a b \<le> 100" for a b
  proof (cases "a = jiun")
    case False
    then show ?thesis by (simp add: initialScore_def)
  next
    case True
    have "\<forall>e \<in> set jiunInitialScores. 0 \<le> snd e \<and> snd e \<le> 100"
      by (simp add: jiunInitialScores_def)
    then show ?thesis
      using True by (auto simp: initialScore_def split: option.splits dest!: map_of_SomeD)
  qed
  then show ?thesis
    by (auto simp: validScores_iff getInitialData_eq initialRow_eq)
qed

lemma importFromJson_installs:
  "doc_allEvaluations d = Some m \<Longrightarrow>
   allEvaluations (importFromJson (Some (ParsedObject d)) True s) = m"
  by (simp add: importFromJson_def tryImport_def showToast_def setAxisLabel_def Let_def
      split: option.splits)

lemma importFromJson_matrix_cases:
  "allEvaluations (importFromJson file confirmed s) = allEvaluations s \<or>
   (\<exists>d. file = Some (ParsedObject d) \<and>
        doc_allEvaluations d = Some (allEvaluations (importFromJson file confirmed s)))"
  by (auto simp: importFromJson_def tryImport_def showToast_def setAxisLabel_def Let_def
      split: option.splits parse_outcome.splits)

text \<open>
  Against C2: from the start state, which is in range, importing a file whose matrix
  holds the score 150 (the overwrite prompt confirmed) puts that matrix into the state,
  and the snapshot written next holds a score outside 0..100.
\<close>

theorem import_breaks_score_range:
  "validScores (allEvaluations (initialState None)) \<and>
   doc_allEvaluations
     (snapshot (step (ImportFile (Some (ParsedObject outOfRangeFile)) True) (initialState None)))
     = Some [(jiun, [(daeseong, 150)])] \<and>
   \<not> validScores [(jiun, [(daeseong, 150)])]"
proof -
  have "validScores (allEvaluations (initialState None))"
    using validScores_getInitialData
    by (simp add: initialState_def initialAllEvaluations_def readAllEvaluations_def)
  moreover have "allEvaluations
      (step (ImportFile (Some (ParsedObject outOfRangeFile)) True) (initialState None))
     = [(jiun, [(daeseong, 150)])]"
    by (simp add: importFromJson_installs outOfRangeFile_def)
  moreover have "\<not> validScores [(jiun, [(daeseong, 150)])]"
    by (simp add: validScores_def)
  ultimately show ?thesis by (simp add: snapshot_def)
qed

text \<open>
  C2, amended: the snapshot is the state's matrix and label. The built-in matrix has all
  scores in 0..100; every event other than an import that the page can deliver keeps them
  there (the number box clamps, the slider reports 0..100, a blur writes 0); an import
  keeps them there when the file's own matrix is in range, and otherwise installs the
  file's matrix as it is.
\<close>

theorem score_range_preserved:
  "validScores (allEvaluations (initialState None)) \<and>
   doc_allEvaluations (snapshot s) = Some (allEvaluations s) \<and>
   doc_axisLabel (snapshot s) = Some (axisLabel s) \<and>
   (validScores (allEvaluations s) \<and> deliverable ev s \<and> \<not> isImport ev \<longrightarrow>
      validScores (allEvaluations (step ev s))) \<and>
   (validScores (allEvaluations s) \<and>
    (\<forall>d m. file = Some (ParsedObject d) \<and> doc_allEvaluations d = Some m \<longrightarrow> validScores m) \<longrightarrow>
      validScores (allEvaluations (step (ImportFile file confirmed) s))) \<and>
   (doc_allEvaluations d = Some m \<longrightarrow>
      allEvaluations (step (ImportFile (Some (ParsedObject d)) True) s) = m)"
proof -
  have init: "validScores (allEvaluations (initialState None))"
    using validScores_getInitialData
    by (simp add: initialState_def initialAllEvaluations_def readAllEvaluations_def)
  have ui: "validScores (allEvaluations (step ev s))"
    if v: "validScores (allEvaluations s)" and d: "deliverable ev s" and n: "\<not> isImport ev"
  proof (cases ev)
    case (SliderChange subj x)
    with v d show ?thesis by (simp add: sliderChange_def validScores_updateScore)
  next
    case (NumberChange subj x)
    with v show ?thesis
      by (cases x) (simp_all add: numberChange_def validScores_updateScore)
  next
    case (NumberBlur subj x)
    with v show ?thesis
      by (cases x) (simp_all add: numberBlur_def validScores_updateScore)
  next
    case (SaveImageClick r)
    with v show ?thesis by (cases r) (simp_all add: saveGraphAsImage_def showToast_def)
  next
    case (ImportFile picked c)
    with n show ?thesis by simp
  qed (use v in \<open>simp_all add: setAxisLabel_def setCurrentScorer_def exportToJson_def showToast_def\<close>)
  have imp: "validScores (allEvaluations (step (ImportFile file confirmed) s))"
    if v: "validScores (allEvaluations s)"
      and f: "\<forall>d m. file = Some (ParsedObject d) \<and> doc_allEvaluations d = Some m \<longrightarrow> validScores m"
    using importFromJson_matrix_cases[of "file" confirmed s] v f by auto
  from init ui imp show ?thesis
    by (auto simp: snapshot_def importFromJson_installs)
qed

theorem score_range_preserved_witness:
  "validScores (allEvaluations smallState) \<and> deliverable (SliderChange junho 40) smallState \<and>
   validScores (allEvaluations (step (SliderChange junho 40) smallState)) \<and>
   validScores (allEvaluations (step (NumberChange junho (Some 250)) smallState)) \<and>
   map_of (rowOf (allEvaluations (step (NumberChange junho (Some 250)) smallState)) jiun) junho
     = Some 100 \<and>
   validScores (allEvaluations
      (step (ImportFile (Some (ParsedObject (snapshot smallState))) True) smallState))"
proof -
  have v: "validScores (allEvaluations smallState)"
    by (simp add: smallState_def smallMatrix_def validScores_def)
  have d: "deliverable (SliderChange junho 40) smallState"
    "deliverable (NumberChange junho (Some 250)) smallState"
    by (simp_all add: smallState_def smallMatrix_def rowOf_def jiun_def junho_def daeseong_def)
  have f: "\<forall>d m. Some (ParsedObject (snapshot smallState)) = Some (ParsedObject d) \<and>
      doc_allEvaluations d = Some m \<longrightarrow> validScores m"
    using v by (auto simp: snapshot_def)
  have c: "map_of (rowOf (allEvaluations (step (NumberChange junho (Some 250)) smallState)) jiun)
      junho = Some 100"
    by (simp add: numberChange_def updateScore_def smallState_def smallMatrix_def rowOf_def
        jiun_def junho_def daeseong_def)
  from v d f c
    score_range_preserved[of smallState "SliderChange junho 40"]
    score_range_preserved[of smallState "NumberChange junho (Some 250)"]
    score_range_preserved[of smallState _ "Some (ParsedObject (snapshot smallState))" True]
  show ?thesis by simp
qed

section \<open>The evaluator keys\<close>

lemma keys_updateScore:
  "currentScorer s \<in> set (map fst (allEvaluations s)) \<Longrightarrow>
   map fst (allEvaluations (updateScore subj v s)) = map fst (allEvaluations s)"
  by (simp add: updateScore_def update_keys)

lemma keys_initialState_None: "map fst (allEvaluations (initialState None)) = participantsNames"
  by (simp add: initialState_def initialAllEvaluations_def readAllEvaluations_def
      getInitialData_eq comp_def)

text \<open>
  Against C5: importing a file with a single evaluator row replaces the seventeen
  evaluator keys of the start state by that one key.
\<close>

theorem import_replaces_evaluators:
  "map fst (allEvaluations (initialState None)) = participantsNames \<and>
   map fst (allEvaluations
      (step (ImportFile (Some (ParsedObject outOfRangeFile)) True) (initialState None)))
     = [jiun] \<and>
   [jiun] \<noteq> participantsNames"
  by (simp add: keys_initialState_None importFromJson_installs outOfRangeFile_def
      participantsNames_def)

text \<open>
  C5, amended: the start state has exactly the seventeen participants as evaluator keys,
  in order, and the selected scorer is one of them; every deliverable event other than an
  import keeps both; a confirmed import replaces the keys by those of the file.
\<close>

theorem evaluator_keys_preserved:
  "map fst (allEvaluations (initialState None)) = participantsNames \<and>
   currentScorer (initialState None) \<in> set participantsNames \<and>
   (map fst (allEvaluations s) = participantsNames \<and> currentScorer s \<in> set participantsNames \<and>
    deliverable ev s \<and> \<not> isImport ev \<longrightarrow>
      map fst (allEvaluations (step ev s)) = participantsNames \<and>
      currentScorer (step ev s) \<in> set participantsNames) \<and>
   (doc_allEvaluations d = Some m \<longrightarrow>
      map fst (allEvaluations (step (ImportFile (Some (ParsedObject d)) True) s)) = map fst m)"
proof -
  have j: "currentScorer (initialState None) \<in> set participantsNames"
    by (simp add: initialState_def jiun_def participantsNames_def)
  have ui: "map fst (allEvaluations (step ev s)) = participantsNames \<and>
      currentScorer (step ev s) \<in> set participantsNames"
    if k: "map fst (allEvaluations s) = participantsNames"
      and c: "currentScorer s \<in> set participantsNames"
      and d: "deliverable ev s" and n: "\<not> isImport ev"
  proof -
    have in_keys: "currentScorer s \<in> set (map fst (allEvaluations s))"
      using k c by simp
    have upd: "map fst (allEvaluations (updateScore subj v s)) = participantsNames \<and>
        currentScorer (updateScore subj v s) \<in> set participantsNames" for subj v
      using keys_updateScore[OF in_keys, of subj v] k c by (simp add: updateScore_def)
    show ?thesis
    proof (cases ev)
      case (SliderChange subj x)
      with upd show ?thesis by (simp add: sliderChange_def)
    next
      case (NumberChange subj x)
      with upd k c show ?thesis by (cases x) (simp_all add: numberChange_def)
    next
      case (NumberBlur subj x)
      with upd k c show ?thesis by (cases x) (simp_all add: numberBlur_def)
    next
      case (SelectScorer n)
      with k d show ?thesis by (simp add: setCurrentScorer_def)
    next
      case (SaveImageClick r)
      with k c show ?thesis by (cases r) (simp_all add: saveGraphAsImage_def showToast_def)
    next
      case (ImportFile picked c)
      with n show ?thesis by simp
    qed (use k c in \<open>simp_all add: setAxisLabel_def exportToJson_def showToast_def\<close>)
  qed
  from keys_initialState_None j ui show ?thesis
    by (auto simp: importFromJson_installs)
qed

theorem evaluator_keys_preserved_witness:
  "map fst (allEvaluations (initialState None)) = participantsNames \<and>
   deliverable (SliderChange daeseong 40) (initialState None) \<and>
   map fst (allEvaluations (step (SliderChange daeseong 40) (initialState None)))
     = participantsNames \<and>
   map fst (allEvaluations (step (SelectScorer junho) (initialState None))) = participantsNames \<and>
   currentScorer (step (SelectScorer junho) (initialState None)) = junho"
proof -
  have r: "rowOf (allEvaluations (initialState None)) (currentScorer (initialState None))
      = jiunInitialScores"
    using rowOf_getInitialData[of jiun] initialRow_jiun
    by (simp add: initialState_def initialAllEvaluations_def readAllEvaluations_def
        jiun_def participantsNames_def)
  have d: "deliverable (SliderChange daeseong 40) (initialState None)"
    "deliverable (SelectScorer junho) (initialState None)"
    unfolding deliverable.simps r
    by (simp_all add: jiunInitialScores_def daeseong_def junho_def participantsNames_def)
  have c: "currentScorer (step (SelectScorer junho) (initialState None)) = junho"
    by (simp add: setCurrentScorer_def)
  from d c
    evaluator_keys_preserved[of "initialState None" "SliderChange daeseong 40"]
    evaluator_keys_preserved[of "initialState None" "SelectScorer junho"]
  show ?thesis by simp
qed

section \<open>Export and import\<close>




section \<open>Failures\<close>

lemma tryImport_fails_iff:
  "(\<exists>e. tryImport payload confirmed s = Inl e) \<longleftrightarrow>
   (payload = ParseThrows \<or> payload = ParsedNull \<or>
    (\<exists>d. payload = ParsedObject d \<and> doc_allEvaluations d = None))"
  by (auto simp: tryImport_def Let_def split: parse_outcome.splits option.splits)

text \<open>
  Against C4: a failing image export raises an error toast as well, from a state that
  shows none, and it is neither an import nor a storage write.
\<close>

theorem image_failure_is_a_failure_mode:
  "toast (initialState None) = None \<and>
   toast (step (SaveImageClick PngThrows) (initialState None)) = Some (ImageSaveFailed, Error) \<and>
   \<not> isImport (SaveImageClick PngThrows)"
  by (simp add: saveGraphAsImage_def showToast_def initialState_def)

text \<open>
  C4, amended: an event leaves an error toast behind only when that toast was already
  shown, or the event is an import whose \<open>try\<close> body threw, or it is an image export
  that threw. An import of a text that does not parse, parses to \<open>null\<close> or lacks
  \<open>allEvaluations\<close> changes nothing but the toast, so matrix and label stay; so does a
  failed image export; a storage write that throws changes nothing but the toast and
  leaves the stored item; no handler tries again.
\<close>

theorem failures_are_notified:
  "(toast (step ev s) = Some (msg, Error) \<longrightarrow>
      (toast s = Some (msg, Error) \<and> step ev s = s) \<or>
      (toast s = Some (msg, Error) \<and> \<not> isImport ev \<and> ev \<noteq> SaveImageClick PngThrows) \<or>
      (\<exists>payload confirmed e. ev = ImportFile (Some payload) confirmed \<and>
          tryImport payload confirmed s = Inl e \<and> msg = FileLoadFailed e) \<or>
      (ev = SaveImageClick PngThrows \<and> msg = ImageSaveFailed)) \<and>
   (payload = ParseThrows \<or> payload = ParsedNull \<or>
    (\<exists>d. payload = ParsedObject d \<and> doc_allEvaluations d = None) \<longrightarrow>
      (\<exists>e. importFromJson (Some payload) confirmed s = s\<lparr>toast := Some (FileLoadFailed e, Error)\<rparr>)) \<and>
   saveGraphAsImage PngThrows s = s\<lparr>toast := Some (ImageSaveFailed, Error)\<rparr> \<and>
   persistEffect False s storage = (s\<lparr>toast := Some (StorageFull, Error)\<rparr>, storage) \<and>
   persistEffect True s storage = (s, Some (ParsedObject (snapshot s)))"
proof -
  have a: "(toast s = Some (msg, Error) \<and> step ev s = s) \<or>
      (toast s = Some (msg, Error) \<and> \<not> isImport ev \<and> ev \<noteq> SaveImageClick PngThrows) \<or>
      (\<exists>payload confirmed e. ev = ImportFile (Some payload) confirmed \<and>
          tryImport payload confirmed s = Inl e \<and> msg = FileLoadFailed e) \<or>
      (ev = SaveImageClick PngThrows \<and> msg = ImageSaveFailed)"
    if t: "toast (step ev s) = Some (msg, Error)"
  proof (cases ev)
    case (ImportFile picked c)
    show ?thesis
    proof (cases picked)
      case None
      with ImportFile t show ?thesis by (simp add: importFromJson_def)
    next
      case (Some payload)
      show ?thesis
      proof (cases "tryImport payload c s")
        case (Inl e)
        with ImportFile Some t show ?thesis by (simp add: importFromJson_def showToast_def)
      next
        case (Inr s')
        then have "s' = s \<or> toast s' = Some (FileLoaded, Success)"
          by (auto simp: tryImport_def showToast_def Let_def
              split: parse_outcome.splits option.splits if_splits)
        with ImportFile Some Inr t show ?thesis by (auto simp: importFromJson_def)
      qed
    qed
  next
    case (SaveImageClick r)
    with t show ?thesis by (cases r) (simp_all add: saveGraphAsImage_def showToast_def)
  next
    case (NumberChange subj x)
    with t show ?thesis
      by (cases x) (simp_all add: numberChange_def updateScore_def)
  next
    case (NumberBlur subj x)
    with t show ?thesis
      by (cases x) (simp_all add: numberBlur_def updateScore_def)
  qed (insert t, simp_all add: sliderChange_def updateScore_def setAxisLabel_def
        setCurrentScorer_def exportToJson_def showToast_def)
  have b: "\<exists>e. importFromJson (Some payload) confirmed s = s\<lparr>toast := Some (FileLoadFailed e, Error)\<rparr>"
    if "payload = ParseThrows \<or> payload = ParsedNull \<or>
      (\<exists>d. payload = ParsedObject d \<and> doc_allEvaluations d = None)"
  proof -
    from that obtain e where "tryImport payload confirmed s = Inl e"
      using tryImport_fails_iff[of payload confirmed s] by blast
    then show ?thesis by (auto simp: importFromJson_def showToast_def)
  qed
  from a b show ?thesis
    by (simp add: saveGraphAsImage_def persistEffect_def showToast_def)
qed

theorem failures_are_notified_witness:
  "toast (step (ImportFile (Some ParseThrows) True) smallState)
     = Some (FileLoadFailed SyntaxError, Error) \<and>
   allEvaluations (step (ImportFile (Some ParseThrows) True) smallState) = smallMatrix \<and>
   axisLabel (step (ImportFile (Some ParseThrows) True) smallState) = defaultAxisLabel \<and>
   importFromJson (Some (ParsedObject noLabelFile)) True smallState
     = smallState\<lparr>toast := Some (FileLoadFailed InvalidFormat, Error)\<rparr> \<and>
   persistEffect False smallState None = (smallState\<lparr>toast := Some (StorageFull, Error)\<rparr>, None)"
proof -
  have t: "toast (step (ImportFile (Some ParseThrows) True) smallState)
     = Some (FileLoadFailed SyntaxError, Error)"
    by (simp add: importFromJson_def tryImport_def showToast_def)
  have i: "importFromJson (Some (ParsedObject noLabelFile)) True smallState
     = smallState\<lparr>toast := Some (FileLoadFailed InvalidFormat, Error)\<rparr>"
    by (simp add: importFromJson_def tryImport_def showToast_def noLabelFile_def)
  have p: "importFromJson (Some ParseThrows) True smallState
     = smallState\<lparr>toast := Some (FileLoadFailed SyntaxError, Error)\<rparr>"
    by (simp add: importFromJson_def tryImport_def showToast_def)
  from t i p
    failures_are_notified[of "ImportFile (Some ParseThrows) True" smallState
      "FileLoadFailed SyntaxError" ParseThrows True None]
  show ?thesis by (simp add: smallState_def)
qed


section \<open>Doubles that hold integers\<close>

lemma expo_le:
  assumes "0 < a"
  shows "2 powi (expo a) \<le> a"
proof -
  obtain p q where pq: "quotient_of a = (p, q)" by (cases "quotient_of a")
  then have q: "0 < q" and a: "a = of_int p / of_int q"
    by (simp_all add: quotient_of_denom_pos quotient_of_div)
  from assms a q have p: "0 < p" by (simp add: zero_less_divide_iff)
  let ?c = "bitlen p - bitlen q"
  show ?thesis
  proof (cases "2 powi ?c \<le> a")
    case True
    then show ?thesis by (simp add: expo_def pq)
  next
    case False
    then have e: "expo a = ?c - 1" by (simp add: expo_def pq)
    from bitlen_bounds[OF p] have lo: "(2::rat) ^ nat (bitlen p - 1) \<le> of_int p"
      by (metis of_int_le_iff of_int_numeral of_int_power)
    from bitlen_bounds[OF q] have hi: "of_int q \<le> (2::rat) ^ nat (bitlen q)"
      by (metis less_imp_le of_int_le_iff of_int_numeral of_int_power)
    have bp: "0 \<le> bitlen p - 1" using p by (simp add: bitlen_alt_def)
    have "(2::rat) powi (?c - 1) = 2 powi (bitlen p - 1) / 2 powi (bitlen q)"
      using power_int_diff[of "2::rat" "bitlen p - 1" "bitlen q"] by (simp add: algebra_simps)
    also have "\<dots> = 2 ^ nat (bitlen p - 1) / 2 ^ nat (bitlen q)"
      using bp bitlen_nonneg[of q] by (simp add: power_int_nonneg_exp)
    also have "\<dots> \<le> of_int p / of_int q"
      using lo hi q p by (intro frac_le) simp_all
    finally have "(2::rat) powi (?c - 1) \<le> of_int p / of_int q" .
    then have "(2::rat) powi (?c - 1) \<le> a" by (simp only: a [symmetric])
    then show ?thesis by (simp only: e)
  qed
qed

lemma rne_of_int [simp]: "rne (of_int m) = m"
  by (simp add: rne_def)



lemma expo_less:
  assumes "0 < a" and "a < 2 ^ n"
  shows "expo a < int n"
proof (rule ccontr)
  assume "\<not> expo a < int n"
  then have "int n \<le> expo a" by simp
  then have "(2::rat) powi (int n) \<le> 2 powi (expo a)"
    by (intro power_int_increasing) simp_all
  with expo_le[OF assms(1)] assms(2) show False by simp
qed

lemma powi_nonpos: "k \<le> 0 \<Longrightarrow> (2::rat) powi k = 1 / 2 ^ nat (- k)"
  using power_int_minus_divide[of "2::rat" "- k"] by (simp add: power_int_nonneg_exp)

lemma toDouble_of_int:
  assumes "\<bar>n\<bar> < 2 ^ 53"
  shows "toDouble (of_int n) = Fin (of_int n)"
proof (cases "n = 0")
  case True
  then show ?thesis by (simp add: toDouble_def)
next
  case False
  define a :: rat where "a = \<bar>of_int n\<bar>"
  define k where "k = max (expo a - 52) (- 1074)"
  define j where "j = nat (- k)"
  have pos: "0 < a" using False by (simp add: a_def)
  have "of_int \<bar>n\<bar> < (of_int (2 ^ 53) :: rat)" using assms by (simp only: of_int_less_iff)
  then have lt: "a < 2 ^ 53" by (simp add: a_def)
  from expo_less[OF pos lt] have k: "k \<le> 0" by (simp add: k_def)
  have u: "(2::rat) powi k = 1 / 2 ^ j" unfolding j_def using k by (rule powi_nonpos)
  have "a / 2 powi k = of_int (\<bar>n\<bar> * 2 ^ j)" by (simp add: u a_def)
  then have r: "rne (a / 2 powi k) = \<bar>n\<bar> * 2 ^ j" by (simp only: rne_of_int)
  have y: "of_int (rne (a / 2 powi k)) * 2 powi k = a"
    unfolding r by (simp add: u a_def)
  have small: "\<not> (2::rat) ^ 1024 \<le> a" using lt by simp
  have "toDouble (of_int n) =
      (if (2::rat) ^ 1024 \<le> of_int (rne (a / 2 powi k)) * 2 powi k
       then (if 0 < (of_int n :: rat) then PosInf else NegInf)
       else Fin (if 0 < (of_int n :: rat) then of_int (rne (a / 2 powi k)) * 2 powi k
                 else - (of_int (rne (a / 2 powi k)) * 2 powi k)))"
    using False by (simp add: toDouble_def Let_def a_def k_def)
  also have "\<dots> = Fin (if 0 < (of_int n :: rat) then a else - a)"
    unfolding y using small by simp
  also have "\<dots> = Fin (of_int n)" by (simp add: a_def)
  finally show ?thesis .
qed









lemma js_round_of_int [simp]: "js_round (of_int n) = n"
proof -
  have "\<lfloor>(of_int n :: rat) + 1 / 2\<rfloor> = n" by linarith
  then show ?thesis by (simp add: js_round_def)
qed



section \<open>Sorting with a comparator\<close>

lemma mset_insertBy: "mset (insertBy cmp x ys) = add_mset x (mset ys)"
  by (induction ys) simp_all

lemma mset_sortBy: "mset (sortBy cmp xs) = mset xs"
  unfolding sortBy_def by (induction xs) (simp_all add: mset_insertBy)

lemma set_insertBy: "set (insertBy cmp x ys) = insert x (set ys)"
  using mset_insertBy[of cmp x ys, THEN arg_cong, of set_mset] by simp

lemma sorted_wrt_insertBy:
  assumes total: "\<And>a b. cmp a b \<le> 0 \<or> cmp b a \<le> 0"
    and trans: "\<And>a b c. cmp a b \<le> 0 \<Longrightarrow> cmp b c \<le> 0 \<Longrightarrow> cmp a c \<le> 0"
    and "sorted_wrt (\<lambda>a b. cmp a b \<le> 0) ys"
  shows "sorted_wrt (\<lambda>a b. cmp a b \<le> 0) (insertBy cmp x ys)"
  using assms(3)
proof (induction ys)
  case Nil
  then show ?case by simp
next
  case (Cons y ys)
  show ?case
  proof (cases "cmp x y \<le> 0")
    case True
    with Cons.prems trans[of x y] show ?thesis by auto
  next
    case False
    with total[of x y] have "cmp y x \<le> 0" by simp
    with False Cons show ?thesis by (auto simp: set_insertBy)
  qed
qed

lemma sorted_wrt_sortBy:
  assumes "\<And>a b. cmp a b \<le> 0 \<or> cmp b a \<le> 0"
    and "\<And>a b c. cmp a b \<le> 0 \<Longrightarrow> cmp b c \<le> 0 \<Longrightarrow> cmp a c \<le> 0"
  shows "sorted_wrt (\<lambda>a b. cmp a b \<le> 0) (sortBy cmp xs)"
  unfolding sortBy_def
  by (induction xs) (simp_all add: sorted_wrt_insertBy[OF assms])

lemma byScoreThenName_le:
  "byScoreThenName lc a b \<le> 0 \<longleftrightarrow> scoreNameOrder lc a b"
  by (auto simp: byScoreThenName_def scoreNameOrder_def)

lemma sorted_byScoreThenName:
  assumes "consistentCollation lc"
  shows "sorted_wrt (scoreNameOrder lc) (sortBy (byScoreThenName lc) cs)"
proof -
  have total: "byScoreThenName lc a b \<le> 0 \<or> byScoreThenName lc b a \<le> 0" for a b
    using assms unfolding byScoreThenName_le scoreNameOrder_def consistentCollation_def
    by (metis linorder_less_linear)
  have trans: "byScoreThenName lc a c \<le> 0"
    if "byScoreThenName lc a b \<le> 0" "byScoreThenName lc b c \<le> 0" for a b c
  proof -
    from assms have t: "lc x y \<le> 0 \<Longrightarrow> lc y z \<le> 0 \<Longrightarrow> lc x z \<le> 0" for x y z
      unfolding consistentCollation_def by blast
    from that show ?thesis
      unfolding byScoreThenName_le scoreNameOrder_def
      using t[of "name a" "name b" "name c"] by auto
  qed
  have "sorted_wrt (\<lambda>a b. byScoreThenName lc a b \<le> 0) (sortBy (byScoreThenName lc) cs)"
    using total trans by (rule sorted_wrt_sortBy)
  then show ?thesis by (simp add: byScoreThenName_le)
qed


section \<open>The tallies behind the leaderboard\<close>









lemma rowMagnitude_Nil [simp]: "rowMagnitude [] = 0"
  by (simp add: rowMagnitude_def)

lemma rowMagnitude_Cons [simp]: "rowMagnitude (e # row) = \<bar>snd e\<bar> + rowMagnitude row"
  by (simp add: rowMagnitude_def)


lemma magnitude_Nil [simp]: "magnitude [] = 0"
  by (simp add: magnitude_def)

lemma magnitude_Cons [simp]: "magnitude (entry # m) = rowMagnitude (snd entry) + magnitude m"
  by (simp add: magnitude_def)


lemma entryCount_Nil [simp]: "entryCount [] = 0"
  by (simp add: entryCount_def)

lemma entryCount_Cons [simp]: "entryCount (entry # m) = int (length (snd entry)) + entryCount m"
  by (simp add: entryCount_def)




















subsection \<open>The names the leaderboard lists\<close>












subsection \<open>Counts without a bound on the matrix\<close>





subsection \<open>Entries of the leaderboard\<close>













section \<open>Leaderboards of concrete matrices\<close>


lemma toDouble_numeral:
  "(numeral n :: int) < 2 ^ 53 \<Longrightarrow> toDouble (numeral n) = Fin (numeral n)"
  "(numeral n :: int) < 2 ^ 53 \<Longrightarrow> toDouble (- numeral n) = Fin (- numeral n)"
  "toDouble 0 = Fin 0" "toDouble 1 = Fin 1"
  using toDouble_of_int[of "numeral n"] toDouble_of_int[of "- numeral n"]
    toDouble_of_int[of 0] toDouble_of_int[of 1]
  by simp_all


lemma js_round_div:
  assumes "0 < c"
  shows "js_round (of_int t / of_int c) = (2 * t + c) div (2 * c)"
proof -
  have "(of_int t :: rat) / of_int c + 1 / 2 = of_int (2 * t + c) / of_int (2 * c)"
    using assms by (simp add: field_simps)
  then show ?thesis
    unfolding js_round_def by (simp only: floor_divide_of_int_eq)
qed

lemma js_round_numeral_div:
  "js_round (numeral a / numeral b) = (2 * numeral a + numeral b) div (2 * numeral b)"
  using js_round_div[of "numeral b" "numeral a"] by simp

lemma js_round_numeral [simp]:
  "js_round (numeral a) = numeral a" "js_round (- numeral a) = - numeral a"
  "js_round 0 = 0" "js_round 1 = 1"
  using js_round_of_int[of "numeral a"] js_round_of_int[of "- numeral a"]
    js_round_of_int[of 0] js_round_of_int[of 1]
  by simp_all

lemmas names_defs = jiun_def daeseong_def junho_def

lemmas tally_defs = averageScores_def tallyAll_def tallyEvaluator_def tallyEntry_def
  sumGiven_def denominator_def orElse_def js_plus_def toNumber_def getProp_def setProp_def
  objectPrototypeNames_def protoKey_def fromInt_def js_positive_def js_sub_def
  sortBy_def byScoreDescending_def js_round_numeral_div






lemma toDouble_large:
  "toDouble 9007199254740992 = Fin 9007199254740992"
  "toDouble 9007199254740993 = Fin 9007199254740992"
  "toDouble 4503599627370496 = Fin 4503599627370496"
  by code_simp+

text \<open>
  Beyond the bound the two differ: with the scores \<open>2^53\<close> and 1 the total is rounded to
  \<open>2^53\<close>, and the leaderboard shows \<open>2^52\<close> where the rounded mean is \<open>2^52 + 1\<close>.
  And a subject named \<open>__proto__\<close> gets no entry.
\<close>

lemma beyond_doubles:
  "averageScores [(jiun, [(daeseong, 9007199254740992)]), (junho, [(daeseong, 1)])]
     = [(daeseong, Fin 4503599627370496)] \<and>
   roundedMean (scoresGiven (nonEmptySubmissions
       [(jiun, [(daeseong, 9007199254740992)]), (junho, [(daeseong, 1)])]) daeseong)
     = 4503599627370497"
  by (simp add: tally_defs names_defs toDouble_numeral toDouble_large
      scoresGiven_def nonEmptySubmissions_def roundedMean_def)

lemma proto_subject_has_no_entry:
  "averageScores [(jiun, [(protoKey, 5)])] = []"
  by (simp add: tally_defs names_defs toDouble_numeral)





section \<open>The leaderboard scores\<close>




section \<open>The denominator of the leaderboard\<close>





section \<open>Grouping\<close>

lemma closeGroups_groupStep:
  "concat (closeGroups (groupStep p acc)) = concat (closeGroups acc) @ [p]"
  by (simp add: closeGroups_def groupStep_def Let_def)

lemma groupsInvariant_groupStep:
  assumes "groupsInvariant acc"
  shows "groupsInvariant (groupStep p acc)"
proof (cases "snd acc = []")
  case True
  with assms have "fst acc = []" by (simp add: groupsInvariant_def)
  with True show ?thesis
    by (simp add: groupsInvariant_def groupStep_def closeGroups_def Let_def)
next
  case False
  from assms False have
    ne: "[] \<notin> set (fst acc)" and
    band: "\<forall>g \<in> set (fst acc @ [snd acc]). successively withinBand g" and
    gap: "successively (\<lambda>g h. \<not> withinBand (last g) (hd h)) (fst acc @ [snd acc])"
    by (simp_all add: groupsInvariant_def closeGroups_def)
  show ?thesis
  proof (cases "\<bar>score p - score (last (snd acc))\<bar> \<le> SCORE_BAND")
    case True
    then have w: "withinBand (last (snd acc)) p" by (simp add: withinBand_def)
    have s: "groupStep p acc = (fst acc, snd acc @ [p])"
      using False True by (simp add: groupStep_def Let_def)
    have b: "successively withinBand (snd acc @ [p])"
      using band w False by (simp add: successively_append_iff)
    have g: "successively (\<lambda>g h. \<not> withinBand (last g) (hd h)) (fst acc @ [snd acc @ [p]])"
      using gap False by (simp add: successively_append_iff)
    from ne band b g show ?thesis
      unfolding s by (simp add: groupsInvariant_def closeGroups_def)
  next
    case out: False
    then have w: "\<not> withinBand (last (snd acc)) p" by (simp add: withinBand_def)
    have s: "groupStep p acc = (fst acc @ [snd acc], [p])"
      using False out by (simp add: groupStep_def Let_def)
    have g: "successively (\<lambda>g h. \<not> withinBand (last g) (hd h)) ((fst acc @ [snd acc]) @ [[p]])"
      using gap w by (simp add: successively_append_iff)
    from ne band g False show ?thesis
      unfolding s by (simp add: groupsInvariant_def closeGroups_def)
  qed
qed

lemma fold_groupStep:
  "groupsInvariant acc \<Longrightarrow>
   groupsInvariant (fold groupStep xs acc) \<and>
   concat (closeGroups (fold groupStep xs acc)) = concat (closeGroups acc) @ xs"
proof (induction xs arbitrary: acc)
  case Nil
  then show ?case by simp
next
  case (Cons p xs)
  from Cons.IH[OF groupsInvariant_groupStep[OF Cons.prems, of p]]
  show ?case by (simp add: closeGroups_groupStep)
qed

lemma closeGroups_nonempty: "groupsInvariant acc \<Longrightarrow> [] \<notin> set (closeGroups acc)"
  by (auto simp: groupsInvariant_def closeGroups_def)

lemma groupsOf_facts:
  "concat (groupsOf xs) = xs"
  "[] \<notin> set (groupsOf xs)"
  "\<forall>g \<in> set (groupsOf xs). successively withinBand g"
  "successively (\<lambda>g h. \<not> withinBand (last g) (hd h)) (groupsOf xs)"
proof -
  have i: "groupsInvariant ([], [])"
    by (simp add: groupsInvariant_def closeGroups_def)
  note f = fold_groupStep[OF i, of xs]
  from f show "concat (groupsOf xs) = xs"
    by (simp add: groupsOf_def closeGroups_def)
  from f closeGroups_nonempty show "[] \<notin> set (groupsOf xs)"
    by (simp add: groupsOf_def)
  from f show "\<forall>g \<in> set (groupsOf xs). successively withinBand g"
    by (simp add: groupsOf_def groupsInvariant_def)
  from f show "successively (\<lambda>g h. \<not> withinBand (last g) (hd h)) (groupsOf xs)"
    by (simp add: groupsOf_def groupsInvariant_def)
qed


section \<open>Items\<close>

lemma mkItem_cases:
  "mkItem g = (if length g = 1 then Single (hd g) (clampX (centerScore g)) None
               else Cluster (clampX (centerScore g)) g)"
  by (cases g rule: list.exhaust; cases "tl g")
    (auto simp: mkItem_def split: list.splits)

lemma membersOf_mkItem: "membersOf (mkItem g) = g"
  by (cases g; cases "tl g") (auto simp: mkItem_def split: list.splits)

lemma stripOffset_mkItem: "stripOffset (mkItem g) = mkItem g"
  by (simp add: mkItem_cases)

lemma withOffset_facts:
  "stripOffset (withOffset y ii) = stripOffset (snd ii)"
  "centerX (withOffset y ii) = centerX (snd ii)"
  "membersOf (withOffset y ii) = membersOf (snd ii)"
  by (cases "snd ii"; simp add: withOffset_def split: option.splits)+

lemma staggered_facts:
  "map stripOffset (staggered items) = map stripOffset items"
  "map membersOf (staggered items) = map membersOf items"
proof -
  have "map (f \<circ> withOffset y) (enumerate 0 items) = map f items"
    if "\<And>ii. f (withOffset y ii) = f (snd ii)" for f :: "item \<Rightarrow> 'b" and y
  proof -
    have "map (f \<circ> withOffset y) (enumerate 0 items) = map (f \<circ> snd) (enumerate 0 items)"
      using that by simp
    also have "\<dots> = map f (map snd (enumerate 0 items))" by (simp only: map_map)
    also have "\<dots> = map f items" by (simp only: map_snd_enumerate)
    finally show ?thesis .
  qed
  from this[of stripOffset] this[of membersOf]
  show "map stripOffset (staggered items) = map stripOffset items"
    "map membersOf (staggered items) = map membersOf items"
    by (simp_all add: staggered_def Let_def withOffset_facts)
qed

lemma mset_concat_map_cong:
  assumes "mset xs = mset ys"
  shows "mset (concat (map f xs)) = mset (concat (map f ys))"
proof -
  have "mset (concat (map f zs)) = sum_mset (image_mset (\<lambda>x. mset (f x)) (mset zs))" for zs
    by (induction zs) simp_all
  with assms show ?thesis by simp
qed

lemma stripOffset_eq_Cluster: "stripOffset it = Cluster x ms \<Longrightarrow> it = Cluster x ms"
  by (cases it) simp_all

lemma stripOffset_eq_Single: "stripOffset it = Single p x None \<Longrightarrow> \<exists>y. it = Single p x y"
  by (cases it) simp_all

lemma graphDisplayItems_eq:
  "graphDisplayItems lc cs =
     sortBy (\<lambda>a b. signOf (js_sub (centerX a) (centerX b)))
       (staggered (map mkItem (groupsOf (sortBy (byScoreThenName lc) cs))))"
  by (simp add: graphDisplayItems_def Let_def)

text \<open>
  What the layout does apart from the stagger: it sorts the persons by score, ties by the
  collation of their names (for a consistent collation); cuts the sorted list into
  consecutive non-empty groups such that inside a group each score is within 12 of the one
  before it and the first score of a group is more than 12 from the last score of the
  group before it; turns every group of two or more into one cluster and every group of
  one into a single label, placed at \<open>clampX\<close> of the group's \<open>centerScore\<close>; and uses every
  person in exactly one item.
\<close>

lemma graphDisplayItems_groups:
  assumes S: "S = sortBy (byScoreThenName lc) cs"
  shows "mset S = mset cs \<and>
    (consistentCollation lc \<longrightarrow> sorted_wrt (scoreNameOrder lc) S) \<and>
    concat (groupsOf S) = S \<and> [] \<notin> set (groupsOf S) \<and>
    (\<forall>g \<in> set (groupsOf S). successively withinBand g) \<and>
    successively (\<lambda>g h. \<not> withinBand (last g) (hd h)) (groupsOf S) \<and>
    mset (map stripOffset (graphDisplayItems lc cs)) = mset (map mkItem (groupsOf S)) \<and>
    (\<forall>g \<in> set (groupsOf S). length g \<noteq> 1 \<longrightarrow>
       Cluster (clampX (centerScore g)) g \<in> set (graphDisplayItems lc cs)) \<and>
    (\<forall>g \<in> set (groupsOf S). length g = 1 \<longrightarrow>
       (\<exists>y. Single (hd g) (clampX (centerScore g)) y \<in> set (graphDisplayItems lc cs))) \<and>
    mset (concat (map membersOf (graphDisplayItems lc cs))) = mset cs"
proof -
  let ?R = "graphDisplayItems lc cs" and ?I = "map mkItem (groupsOf S)"
  let ?cmp = "\<lambda>a b. signOf (js_sub (centerX a) (centerX b))"
  have R: "?R = sortBy ?cmp (staggered ?I)"
    by (simp add: graphDisplayItems_eq S)
  have perm: "mset S = mset cs" by (simp add: S mset_sortBy)
  have srt: "consistentCollation lc \<longrightarrow> sorted_wrt (scoreNameOrder lc) S"
    by (simp add: S sorted_byScoreThenName)
  have mR: "mset ?R = mset (staggered ?I)" by (simp add: R mset_sortBy)
  have "mset (map stripOffset ?R) = mset (map stripOffset (staggered ?I))"
    unfolding R by (simp only: mset_map mset_sortBy)
  also have "\<dots> = mset (map stripOffset ?I)" by (simp only: staggered_facts)
  also have "\<dots> = mset ?I" by (simp add: stripOffset_mkItem comp_def)
  finally have strip: "mset (map stripOffset ?R) = mset ?I" .
  then have sets: "set (map stripOffset ?R) = set ?I" by (rule mset_eq_setD)
  have clusters: "Cluster (clampX (centerScore g)) g \<in> set ?R"
    if "g \<in> set (groupsOf S)" "length g \<noteq> 1" for g
  proof -
    from that have "Cluster (clampX (centerScore g)) g \<in> set ?I"
      by (auto simp: mkItem_cases image_iff intro!: bexI[of _ g])
    with sets have "Cluster (clampX (centerScore g)) g \<in> stripOffset ` set ?R"
      by simp
    then obtain it where "it \<in> set ?R" "stripOffset it = Cluster (clampX (centerScore g)) g"
      by (metis imageE)
    then show ?thesis using stripOffset_eq_Cluster by blast
  qed
  have singles: "\<exists>y. Single (hd g) (clampX (centerScore g)) y \<in> set ?R"
    if "g \<in> set (groupsOf S)" "length g = 1" for g
  proof -
    from that have "Single (hd g) (clampX (centerScore g)) None \<in> set ?I"
      by (auto simp: mkItem_cases image_iff intro!: bexI[of _ g])
    with sets have "Single (hd g) (clampX (centerScore g)) None \<in> stripOffset ` set ?R"
      by simp
    then obtain it where "it \<in> set ?R"
      "stripOffset it = Single (hd g) (clampX (centerScore g)) None"
      by (metis imageE)
    then show ?thesis using stripOffset_eq_Single by blast
  qed
  have "mset (concat (map membersOf ?R)) = mset (concat (map membersOf (staggered ?I)))"
    using mR by (rule mset_concat_map_cong)
  also have "\<dots> = mset (concat (map membersOf ?I))" by (simp only: staggered_facts)
  also have "\<dots> = mset (concat (groupsOf S))" by (simp add: comp_def membersOf_mkItem)
  also have "\<dots> = mset cs" by (simp only: groupsOf_facts(1) perm)
  finally have members: "mset (concat (map membersOf ?R)) = mset cs" .
  from perm srt groupsOf_facts[of S] strip clusters singles members
  show ?thesis by blast
qed

lemmas layout_defs = groupsOf_def groupStep_def closeGroups_def SCORE_BAND_def mkItem_def
  centerScore_def clampX_def staggered_def singleIndices_def List.map_filter_def
  staggerStep_def STAGGER_THRESHOLD_def VERTICAL_OFFSET_def withOffset_def Let_def
  sortBy_def byScoreThenName_def fromInt_def js_sub_def


lemma toDouble_half_195: "toDouble (195 / 2) = Fin (195 / 2)"
  by code_simp

lemma sortBy_layoutScores:
  "sortBy (byScoreThenName codeUnitCompare) layoutScores =
     [\<lparr>name = [0xBCD1, 0xC8FC], score = 30, color = 135 / 2\<rparr>,
      \<lparr>name = [0xD558, 0xC6B4], score = 30, color = 45\<rparr>,
      \<lparr>name = [0xD615, 0xC9C4], score = 60, color = 90\<rparr>,
      \<lparr>name = junho, score = 95, color = 45 / 2\<rparr>,
      \<lparr>name = daeseong, score = 100, color = 0\<rparr>]"
  by (simp add: sortBy_def byScoreThenName_def codeUnitCompare_def layoutScores_def
      daeseong_def junho_def)

lemma graphDisplayItems_layoutScores:
  "graphDisplayItems codeUnitCompare layoutScores = layoutItems"
  unfolding graphDisplayItems_eq sortBy_layoutScores
  by (simp add: layout_defs toDouble_numeral toDouble_half_195 layoutItems_def)

lemma currentScores_staggerState:
  "currentScores staggerState =
     [\<lparr>name = daeseong, score = 20, color = 0\<rparr>,
      \<lparr>name = junho, score = 33, color = 45 / 2\<rparr>,
      \<lparr>name = haun, score = 46, color = 45\<rparr>]"
  by (simp add: currentScores_def staggerState_def rowOf_def enumerate_eq_zip upt_rec)

section \<open>The stagger of single labels\<close>

text \<open>
  C6: the first evaluator gives three subjects the scores 20, 33 and 46. Each score is 13
  from the next, more than \<open>SCORE_BAND\<close>, so the layout makes three single labels and no
  cluster. The labels at 33 and 46 are nearer to each other than \<open>STAGGER_THRESHOLD\<close>, and
  both get the vertical offset -26: the stagger puts them on the same level, where the
  layout's description has labels that are close to each other alternate so that they do
  not cover each other. The collation plays no part, the scores being different.
\<close>

theorem close_labels_share_a_level:
  "graphDisplayItems lc (currentScores staggerState) =
     [Single \<lparr>name = daeseong, score = 20, color = 0\<rparr> (Fin 20) (Some 26),
      Single \<lparr>name = junho, score = 33, color = 45 / 2\<rparr> (Fin 33) (Some (- 26)),
      Single \<lparr>name = haun, score = 46, color = 45\<rparr> (Fin 46) (Some (- 26))] \<and>
   js_lt (js_abs (js_sub (Fin 46) (Fin 33))) STAGGER_THRESHOLD"
  unfolding graphDisplayItems_eq currentScores_staggerState
  by (simp add: layout_defs toDouble_numeral daeseong_def junho_def haun_def)

end
